theory Spec2Isabelle
  imports Main
begin

section \<open>Python values, exceptions and text primitives\<close>

text \<open>
  The client is Python 2 code: \<^verbatim>\<open>str\<close> is a byte string, modelled as \<^typ>\<open>string\<close>;
  \<^verbatim>\<open>int\<close> is unbounded, modelled as \<^typ>\<open>int\<close>. An exception is a value of
  \<open>error\<close>; a function that can raise returns \<open>error + 'a\<close> with \<open>Inl\<close> the exception.
\<close>

datatype error =
    AssertionError
  | ValueError
  | IndexError
  | TypeError
  | RedisError (err_data: string) (err_message: string)
  | UserError string

text \<open>
  \<^verbatim>\<open>RedisError.__init__(self, data, message=None)\<close> stores \<^verbatim>\<open>data\<close> in the attribute
  of that name and replaces a falsy message (\<^verbatim>\<open>None\<close> or the empty string) by the
  default text. \<open>err_data\<close> is the attribute; \<open>err_message\<close> is the message after that
  replacement, from which, with the \<^verbatim>\<open>repr\<close> of the data, the text of the exception
  is formatted. \<open>UserError\<close> stands for whatever a callback of the user raises.
\<close>

definition RedisError_init :: "string \<Rightarrow> string \<Rightarrow> error" where
  "RedisError_init dat message =
     RedisError dat (if message = [] then ''Unknown Redis Error'' else message)"

text \<open>The values \<^verbatim>\<open>decode\<close> returns: \<^verbatim>\<open>True\<close>, \<^verbatim>\<open>None\<close>, an int, a str, a list.\<close>

datatype pyval = PyTrue | PyNone | PyInt int | PyStr string | PyList "pyval list"

abbreviation CRLF :: string where
  "CRLF \<equiv> [CHR 0x0D, CHR 0x0A]"

text \<open>\<^verbatim>\<open>'%d' % n\<close> and \<^verbatim>\<open>str(n)\<close>: the decimal digits of a number.\<close>

definition digit_char :: "nat \<Rightarrow> char" where
  "digit_char d = ''0123456789'' ! d"

fun str_nat :: "nat \<Rightarrow> string" where
  "str_nat n = (if n < 10 then [digit_char n] else str_nat (n div 10) @ [digit_char (n mod 10)])"

declare str_nat.simps [simp del]

definition str_int :: "int \<Rightarrow> string" where
  "str_int i = (if i < 0 then CHR ''-'' # str_nat (nat (- i)) else str_nat (nat i))"

text \<open>
  \<^verbatim>\<open>str.isspace\<close> for one byte, and \<^verbatim>\<open>rstrip()\<close> / \<^verbatim>\<open>strip()\<close> with no argument.
\<close>

definition isspace :: "char \<Rightarrow> bool" where
  "isspace c = (c = CHR '' '' \<or> c = CHR 0x09 \<or> c = CHR 0x0A \<or> c = CHR 0x0B
                \<or> c = CHR 0x0C \<or> c = CHR 0x0D)"

definition lstrip :: "string \<Rightarrow> string" where
  "lstrip s = dropWhile isspace s"

definition rstrip :: "string \<Rightarrow> string" where
  "rstrip s = rev (dropWhile isspace (rev s))"

definition strip :: "string \<Rightarrow> string" where
  "strip s = rstrip (lstrip s)"

text \<open>
  \<^verbatim>\<open>int(s)\<close> on a byte string: surrounding whitespace is dropped, then an optional sign
  and at least one decimal digit must make up the whole text; anything else raises
  \<^verbatim>\<open>ValueError\<close>.
\<close>

definition digit_val :: "char \<Rightarrow> nat option" where
  "digit_val c =
     (let n = (of_char c :: nat) in if 48 \<le> n \<and> n \<le> 57 then Some (n - 48) else None)"

fun parse_digits :: "string \<Rightarrow> nat \<Rightarrow> nat option" where
  "parse_digits [] acc = Some acc"
| "parse_digits (c # cs) acc =
     (case digit_val c of None \<Rightarrow> None | Some d \<Rightarrow> parse_digits cs (10 * acc + d))"

definition py_int :: "string \<Rightarrow> error + int" where
  "py_int s =
     (case strip s of
        [] \<Rightarrow> Inl ValueError
      | c # r \<Rightarrow>
          (let neg = (c = CHR ''-'');
               ds = (if c = CHR ''-'' \<or> c = CHR ''+'' then r else c # r)
           in if ds = [] then Inl ValueError
              else (case parse_digits ds 0 of
                      None \<Rightarrow> Inl ValueError
                    | Some n \<Rightarrow> Inr (if neg then - int n else int n))))"

section \<open>Codec: encode\<close>

text \<open>
  A request as \<^verbatim>\<open>encode\<close> can receive it. Only a \<^verbatim>\<open>tuple\<close> passes the assertion; a
  list, a lone string and \<^verbatim>\<open>None\<close> stand for the other Python objects. A field of the
  tuple is a byte string or an int, as in \<^verbatim>\<open>('lpush', 'l', 1)\<close>.
\<close>

datatype field = FStr string | FInt int

datatype request = Tuple "field list" | PyListReq "field list" | PyStrReq string | PyNoneReq

fun py_str :: "field \<Rightarrow> string" where
  "py_str (FStr s) = s"
| "py_str (FInt i) = str_int i"

text \<open>
  \<^verbatim>\<open>
  def encode(request):
      assert type(request) is tuple
      data = '*%d\r\n' % len(request) + ''.join(['$%d\r\n%s\r\n' % (len(str(x)), x) for x in request])
      return data
  \<close>
\<close>

fun encode :: "request \<Rightarrow> error + string" where
  "encode (Tuple request) =
     Inr (''*'' @ str_nat (length request) @ CRLF
          @ concat (map (\<lambda>x. ''$'' @ str_nat (length (py_str x)) @ CRLF @ py_str x @ CRLF) request))"
| "encode _ = Inl AssertionError"

section \<open>Codec: decode\<close>

text \<open>
  \<^verbatim>\<open>cStringIO.StringIO(data)\<close> is only read, so the stream is the text not yet consumed.
  \<^verbatim>\<open>read(n)\<close> takes at most \<open>n\<close> bytes, and everything when \<open>n\<close> is negative;
  \<^verbatim>\<open>readline()\<close> takes up to and including the next line feed, or everything.
\<close>

definition read :: "int \<Rightarrow> string \<Rightarrow> string \<times> string" where
  "read n iodata = (if n < 0 then (iodata, []) else (take (nat n) iodata, drop (nat n) iodata))"

fun readline :: "string \<Rightarrow> string \<times> string" where
  "readline [] = ([], [])"
| "readline (c # cs) =
     (if c = CHR 0x0A then ([c], cs) else (case readline cs of (l, r) \<Rightarrow> (c # l, r)))"

text \<open>The slice \<^verbatim>\<open>s[:-2]\<close>.\<close>

definition drop_last2 :: "string \<Rightarrow> string" where
  "drop_last2 s = take (length s - 2) s"

text \<open>
  One pass of the body of the \<^verbatim>\<open>while number:\<close> loop of \<^verbatim>\<open>decode\<close>: the element
  read and the stream after it, or the \<^verbatim>\<open>ValueError\<close> of \<^verbatim>\<open>int\<close>.
\<close>

definition decode_element :: "string \<Rightarrow> error + (pyval \<times> string)" where
  "decode_element iodata =
     (case read 1 iodata of (c, io1) \<Rightarrow>
        if c = ''$'' then
          (case readline io1 of (ln, io2) \<Rightarrow>
             (case py_int ln of
                Inl e \<Rightarrow> Inl e
              | Inr len \<Rightarrow>
                  (case read len io2 of (element, io3) \<Rightarrow>
                     (case read 2 io3 of (_, io4) \<Rightarrow> Inr (PyStr element, io4)))))
        else if c = '':'' then
          (case readline io1 of (ln, io2) \<Rightarrow>
             (case py_int ln of Inl e \<Rightarrow> Inl e | Inr i \<Rightarrow> Inr (PyInt i, io2)))
        else
          (case readline io1 of (ln, io2) \<Rightarrow> Inr (PyStr (drop_last2 ln), io2)))"

text \<open>
  The loop itself. \<^verbatim>\<open>number\<close> is a Python int counted down to zero, so a negative
  count other than \<open>-1\<close> never reaches the exit test: the loop may run forever, and
  \<open>None\<close> is the value of a run that does not return.
\<close>

partial_function (option) decode_loop ::
  "int \<Rightarrow> string \<Rightarrow> pyval list \<Rightarrow> (error + pyval list) option" where
  "decode_loop number iodata result =
     (if number = 0 then Some (Inr result)
      else (case decode_element iodata of
              Inl e \<Rightarrow> Some (Inl e)
            | Inr (element, io') \<Rightarrow> decode_loop (number - 1) io' (result @ [element])))"

declare decode_loop.simps [code]

definition decode :: "string \<Rightarrow> (error + pyval) option" where
  "decode data =
     (case read 1 data of (c, iodata) \<Rightarrow>
        if c = ''+'' then Some (Inr PyTrue)
        else if c = ''-'' then
          (case readline iodata of (ln, _) \<Rightarrow> Some (Inl (RedisError_init (rstrip ln) [])))
        else if c = '':'' then
          (case readline iodata of (ln, _) \<Rightarrow>
             (case py_int ln of Inl e \<Rightarrow> Some (Inl e) | Inr i \<Rightarrow> Some (Inr (PyInt i))))
        else if c = ''$'' then
          (case readline iodata of (ln, io1) \<Rightarrow>
             (case py_int ln of
                Inl e \<Rightarrow> Some (Inl e)
              | Inr number \<Rightarrow>
                  if number = - 1 then Some (Inr PyNone)
                  else (case read number io1 of (dat, io2) \<Rightarrow>
                          (case read 2 io2 of (_, _) \<Rightarrow> Some (Inr (PyStr dat))))))
        else if c = ''*'' then
          (case readline iodata of (ln, io1) \<Rightarrow>
             (case py_int ln of
                Inl e \<Rightarrow> Some (Inl e)
              | Inr number \<Rightarrow>
                  if number = - 1 then Some (Inr PyNone)
                  else (case decode_loop number io1 [] of
                          None \<Rightarrow> None
                        | Some (Inl e) \<Rightarrow> Some (Inl e)
                        | Some (Inr result) \<Rightarrow> Some (Inr (PyList result)))))
        else Some (Inl (RedisError_init ''Redis Reply TypeError: bulk cannot startswith %r'' c)))"

section \<open>The transport\<close>

text \<open>
  The stream is Tornado's \<^verbatim>\<open>IOStream\<close>, which is not part of the repository; the
  definitions of this section follow the transport contract of section 6 of the
  specification. The client names four methods of its own as read handlers, and only
  ever reads until CRLF, so a pending read is a handler and, for \<^verbatim>\<open>read_bytes\<close>, a
  count.
\<close>

datatype handler =
    On_read_first_line
  | On_read_bulk_line
  | On_read_multibulk_linehead
  | On_read_multibulk_linebody

datatype read_request = Read_until handler | Read_bytes int handler

record iostream =
  written :: string
  read_buffer :: string
  read_callback :: "read_request option"

text \<open>
  Modelled from the spec: \<^verbatim>\<open>write(bytes)\<close>, fire-and-forget and ordering-preserving;
  \<^verbatim>\<open>readUntilDelimiter\<close> and \<^verbatim>\<open>readExact(n)\<close>, which register the one pending read.
\<close>

definition stream_write :: "string \<Rightarrow> iostream \<Rightarrow> iostream" where
  "stream_write bytes st = st\<lparr>written := written st @ bytes\<rparr>"

definition read_until :: "handler \<Rightarrow> iostream \<Rightarrow> iostream" where
  "read_until h st = st\<lparr>read_callback := Some (Read_until h)\<rparr>"

definition read_bytes :: "int \<Rightarrow> handler \<Rightarrow> iostream \<Rightarrow> iostream" where
  "read_bytes n h st = st\<lparr>read_callback := Some (Read_bytes n h)\<rparr>"

text \<open>
  Modelled from the spec: the bytes of a notification "including the delimiter", that
  is the buffer split after its first CRLF, when it has one.
\<close>

fun take_line :: "string \<Rightarrow> (string \<times> string) option" where
  "take_line (a # b # rest) =
     (if a = CHR 0x0D \<and> b = CHR 0x0A then Some ([a, b], rest)
      else (case take_line (b # rest) of None \<Rightarrow> None | Some (l, r) \<Rightarrow> Some (a # l, r)))"
| "take_line _ = None"

text \<open>
  Modelled from the spec: the notification the stream can make now, if any. It gives
  the handler, the bytes handed to it (up to and including the delimiter, or exactly
  \<open>n\<close> bytes), and the stream with those bytes consumed and the read no longer
  pending. A count below zero is outside the contract; the model then hands over no
  bytes. \<open>receive\<close> is the arrival of bytes from the peer.
\<close>

definition ready :: "iostream \<Rightarrow> (handler \<times> string \<times> iostream) option" where
  "ready st =
     (case read_callback st of
        None \<Rightarrow> None
      | Some (Read_until h) \<Rightarrow>
          (case take_line (read_buffer st) of
             None \<Rightarrow> None
           | Some (line, rest) \<Rightarrow> Some (h, line, st\<lparr>read_buffer := rest, read_callback := None\<rparr>))
      | Some (Read_bytes n h) \<Rightarrow>
          if int (length (read_buffer st)) < n then None
          else Some (h, take (nat n) (read_buffer st),
                     st\<lparr>read_buffer := drop (nat n) (read_buffer st), read_callback := None\<rparr>))"

definition receive :: "string \<Rightarrow> iostream \<Rightarrow> iostream" where
  "receive chunk st = st\<lparr>read_buffer := read_buffer st @ chunk\<rparr>"

section \<open>The pipeline session\<close>

text \<open>
  \<^verbatim>\<open>AsyncRedisClient\<close>. A callback is known by its identity \<open>'cb\<close>; what it does when
  called is the parameter \<open>run\<close> of the functions below: \<open>run cb result\<close> is \<open>None\<close>
  when the call returns and \<open>Some e\<close> when it raises \<open>e\<close>. Callbacks do not call back
  into the session. The fields \<open>calls\<close> and \<open>logged\<close> record the two effects of
  \<^verbatim>\<open>_maybe_callback\<close> on the world: each \<^verbatim>\<open>callback(result)\<close> made, and each exception
  passed to \<^verbatim>\<open>logging.error\<close>. \<^verbatim>\<open>_data\<close> and \<^verbatim>\<open>_multibulk_number\<close> are attributes
  that exist only once assigned; they are read only after \<^verbatim>\<open>_on_read_first_line\<close> has
  assigned them.
\<close>

record 'cb client =
  callback_queue :: "'cb list"
  callback :: "'cb option"
  result_queue :: "string list"
  stream :: iostream
  data :: string
  multibulk_number :: int
  calls :: "('cb \<times> pyval) list"
  logged :: "error list"

text \<open>
  \<^verbatim>\<open>
  def _wait_result(self):
      self.stream.read_until(bytes_type('\r\n'), self._on_read_first_line)
  \<close>
\<close>

definition wait_result :: "'cb client \<Rightarrow> 'cb client" where
  "wait_result s = s\<lparr>stream := read_until On_read_first_line (stream s)\<rparr>"

text \<open>
  \<^verbatim>\<open>__init__\<close>, with the connection made: \<^verbatim>\<open>stream.connect(address, self._wait_result)\<close>
  runs \<^verbatim>\<open>_wait_result\<close> once connected.
\<close>

definition init :: "'cb client" where
  "init = wait_result
     \<lparr>callback_queue = [], callback = None, result_queue = [],
      stream = \<lparr>written = [], read_buffer = [], read_callback = None\<rparr>,
      data = [], multibulk_number = 0, calls = [], logged = []\<rparr>"

text \<open>
  \<^verbatim>\<open>
  def fetch(self, request, callback):
      data = encode(request)
      self.stream.write(data)
      self._callback = callback
      self._callback_queue.append(callback)
  \<close>
\<close>

definition fetch :: "'cb client \<Rightarrow> request \<Rightarrow> 'cb \<Rightarrow> error + 'cb client" where
  "fetch s request cb =
     (case encode request of
        Inl e \<Rightarrow> Inl e
      | Inr dat \<Rightarrow>
          Inr (s\<lparr>stream := stream_write dat (stream s),
                 callback := Some cb,
                 callback_queue := callback_queue s @ [cb]\<rparr>))"

text \<open>
  \<^verbatim>\<open>
  def _maybe_callback(self, data):
      try:
          if self._result_queue:
              self._result_queue.append(data)
              data = self._result_queue.popleft()
          if self._callback_queue:
              callback = self._callback_queue.popleft()
          else:
              callback = self._callback
          result = decode(data)
          callback(result)
      except Exception:
          logging.error('Uncaught callback exception', exc_info=True)
          raise
      finally:
          self._wait_result()
  \<close>
  The result is the exception that leaves the method, if any, and the session after
  it; \<open>None\<close> when \<^verbatim>\<open>decode\<close> does not return. Calling \<^verbatim>\<open>None\<close> raises \<^verbatim>\<open>TypeError\<close>.
  \<open>take_result\<close> and \<open>take_callback\<close> are the two \<^verbatim>\<open>if\<close> statements, \<open>raise_logged\<close>
  is the \<^verbatim>\<open>except\<close> clause followed by the \<^verbatim>\<open>finally\<close> clause.
\<close>

definition take_result :: "'cb client \<Rightarrow> string \<Rightarrow> string \<times> 'cb client" where
  "take_result s dat =
     (if result_queue s \<noteq> []
      then (hd (result_queue s @ [dat]), s\<lparr>result_queue := tl (result_queue s @ [dat])\<rparr>)
      else (dat, s))"

definition take_callback :: "'cb client \<Rightarrow> 'cb option \<times> 'cb client" where
  "take_callback s =
     (if callback_queue s \<noteq> []
      then (Some (hd (callback_queue s)), s\<lparr>callback_queue := tl (callback_queue s)\<rparr>)
      else (callback s, s))"

definition raise_logged :: "error \<Rightarrow> 'cb client \<Rightarrow> error option \<times> 'cb client" where
  "raise_logged e s = (Some e, wait_result (s\<lparr>logged := logged s @ [e]\<rparr>))"

definition maybe_callback ::
  "('cb \<Rightarrow> pyval \<Rightarrow> error option) \<Rightarrow> 'cb client \<Rightarrow> string \<Rightarrow> (error option \<times> 'cb client) option" where
  "maybe_callback run s dat0 =
     (case take_result s dat0 of (dat, s1) \<Rightarrow>
      (case take_callback s1 of (cb, s2) \<Rightarrow>
       (case decode dat of
          None \<Rightarrow> None
        | Some (Inl e) \<Rightarrow> Some (raise_logged e s2)
        | Some (Inr result) \<Rightarrow>
            (case cb of
               None \<Rightarrow> Some (raise_logged TypeError s2)
             | Some c \<Rightarrow>
                 (let s3 = s2\<lparr>calls := calls s2 @ [(c, result)]\<rparr> in
                  case run c result of
                    None \<Rightarrow> Some (None, wait_result s3)
                  | Some e \<Rightarrow> Some (raise_logged e s3))))))"

text \<open>
  The four read handlers. Each returns the exception that leaves it, if any, and the
  session after it. Indexing an empty string raises \<^verbatim>\<open>IndexError\<close>.
  \<^verbatim>\<open>
  def _on_read_first_line(self, data):
      self._data = data
      c = data[0]
      if c in '+-:':
          self._maybe_callback(self._data)
      elif c == '$':
          if data[:3] == '$-1':
              self._maybe_callback(self._data)
          else:
              length = int(data[1:])
              self.stream.read_bytes(length+2, self._on_read_bulk_line)
      elif c == '*':
          if data[1] in '-0' :
              self._maybe_callback(self._data)
          else:
              self._multibulk_number = int(data[1:])
              self.stream.read_until(bytes_type('\r\n'), self._on_read_multibulk_linehead)
  \<close>
\<close>

definition on_read_first_line ::
  "('cb \<Rightarrow> pyval \<Rightarrow> error option) \<Rightarrow> 'cb client \<Rightarrow> string \<Rightarrow> (error option \<times> 'cb client) option" where
  "on_read_first_line run s dat =
     (let s1 = s\<lparr>data := dat\<rparr> in
      case dat of
        [] \<Rightarrow> Some (Some IndexError, s1)
      | c # _ \<Rightarrow>
          if c \<in> set ''+-:'' then maybe_callback run s1 (data s1)
          else if c = CHR ''$'' then
            (if take 3 dat = ''$-1'' then maybe_callback run s1 (data s1)
             else (case py_int (drop 1 dat) of
                     Inl e \<Rightarrow> Some (Some e, s1)
                   | Inr len \<Rightarrow>
                       Some (None, s1\<lparr>stream := read_bytes (len + 2) On_read_bulk_line (stream s1)\<rparr>)))
          else if c = CHR ''*'' then
            (case drop 1 dat of
               [] \<Rightarrow> Some (Some IndexError, s1)
             | d # _ \<Rightarrow>
                 if d \<in> set ''-0'' then maybe_callback run s1 (data s1)
                 else (case py_int (drop 1 dat) of
                         Inl e \<Rightarrow> Some (Some e, s1)
                       | Inr n \<Rightarrow>
                           Some (None,
                             s1\<lparr>multibulk_number := n,
                                stream := read_until On_read_multibulk_linehead (stream s1)\<rparr>)))
          else Some (None, s1))"

text \<open>
  \<^verbatim>\<open>
  def _on_read_bulk_line(self, data):
      self._data += data
      self._maybe_callback(self._data)
  \<close>
\<close>

definition on_read_bulk_line ::
  "('cb \<Rightarrow> pyval \<Rightarrow> error option) \<Rightarrow> 'cb client \<Rightarrow> string \<Rightarrow> (error option \<times> 'cb client) option" where
  "on_read_bulk_line run s dat =
     (let s1 = s\<lparr>data := data s @ dat\<rparr> in maybe_callback run s1 (data s1))"

text \<open>
  \<^verbatim>\<open>
  def _on_read_multibulk_linehead(self, data):
      self._data += data
      c = data[0]
      if c == '$':
          length = int(data[1:])
          self.stream.read_bytes(length+2, self._on_read_multibulk_linebody)
      else:
          self._maybe_callback(self._data)
  \<close>
\<close>

definition on_read_multibulk_linehead ::
  "('cb \<Rightarrow> pyval \<Rightarrow> error option) \<Rightarrow> 'cb client \<Rightarrow> string \<Rightarrow> (error option \<times> 'cb client) option" where
  "on_read_multibulk_linehead run s dat =
     (let s1 = s\<lparr>data := data s @ dat\<rparr> in
      case dat of
        [] \<Rightarrow> Some (Some IndexError, s1)
      | c # _ \<Rightarrow>
          if c = CHR ''$'' then
            (case py_int (drop 1 dat) of
               Inl e \<Rightarrow> Some (Some e, s1)
             | Inr len \<Rightarrow>
                 Some (None,
                   s1\<lparr>stream := read_bytes (len + 2) On_read_multibulk_linebody (stream s1)\<rparr>))
          else maybe_callback run s1 (data s1))"

text \<open>
  \<^verbatim>\<open>
  def _on_read_multibulk_linebody(self, data):
      self._data += data
      self._multibulk_number -= 1
      if self._multibulk_number:
          self.stream.read_until(bytes_type('\r\n'), self._on_read_multibulk_linehead)
      else:
          self._maybe_callback(self._data)
  \<close>
\<close>

definition on_read_multibulk_linebody ::
  "('cb \<Rightarrow> pyval \<Rightarrow> error option) \<Rightarrow> 'cb client \<Rightarrow> string \<Rightarrow> (error option \<times> 'cb client) option" where
  "on_read_multibulk_linebody run s dat =
     (let s1 = s\<lparr>data := data s @ dat, multibulk_number := multibulk_number s - 1\<rparr> in
      if multibulk_number s1 \<noteq> 0
      then Some (None, s1\<lparr>stream := read_until On_read_multibulk_linehead (stream s1)\<rparr>)
      else maybe_callback run s1 (data s1))"

fun run_handler ::
  "('cb \<Rightarrow> pyval \<Rightarrow> error option) \<Rightarrow> handler \<Rightarrow> 'cb client \<Rightarrow> string
     \<Rightarrow> (error option \<times> 'cb client) option" where
  "run_handler run On_read_first_line s dat = on_read_first_line run s dat"
| "run_handler run On_read_bulk_line s dat = on_read_bulk_line run s dat"
| "run_handler run On_read_multibulk_linehead s dat = on_read_multibulk_linehead run s dat"
| "run_handler run On_read_multibulk_linebody s dat = on_read_multibulk_linebody run s dat"

section \<open>Running the transport against the session\<close>

text \<open>
  \<^verbatim>\<open>_maybe_callback\<close> ends in \<^verbatim>\<open>_wait_result\<close> whenever it ends, and touches nothing else of
  the stream; no handler touches the stream's buffer.
\<close>

lemma maybe_callback_stream:
  "maybe_callback run s d = Some (e, s') \<Longrightarrow> stream s' = read_until On_read_first_line (stream s)"
  by (auto simp: maybe_callback_def take_result_def take_callback_def raise_logged_def
      wait_result_def Let_def split: if_splits option.splits sum.splits)

lemma read_buffer_read_until [simp]: "read_buffer (read_until h st) = read_buffer st"
  by (simp add: read_until_def)

lemma read_buffer_read_bytes [simp]: "read_buffer (read_bytes n h st) = read_buffer st"
  by (simp add: read_bytes_def)

lemma read_callback_read_until [simp]: "read_callback (read_until h st) = Some (Read_until h)"
  by (simp add: read_until_def)

lemma read_callback_read_bytes [simp]: "read_callback (read_bytes n h st) = Some (Read_bytes n h)"
  by (simp add: read_bytes_def)

lemma run_handler_read_buffer:
  "run_handler run h s d = Some (e, s') \<Longrightarrow> read_buffer (stream s') = read_buffer (stream s)"
  by (cases h)
     (auto simp: on_read_first_line_def on_read_bulk_line_def on_read_multibulk_linehead_def
        on_read_multibulk_linebody_def Let_def
        dest!: maybe_callback_stream split: if_splits list.splits sum.splits)

lemma run_handler_empty:
  "run_handler run h s [] = Some (e, s') \<Longrightarrow> read_callback (stream s) = None \<Longrightarrow>
     read_callback (stream s') \<noteq> Some (Read_bytes n h')"
  by (cases h)
     (auto simp: on_read_first_line_def on_read_bulk_line_def on_read_multibulk_linehead_def
        on_read_multibulk_linebody_def Let_def
        dest!: maybe_callback_stream split: if_splits list.splits sum.splits)

lemma take_line_length:
  "take_line buf = Some (l, r) \<Longrightarrow> length buf = length l + length r \<and> 2 \<le> length l"
  by (induction buf arbitrary: l r rule: take_line.induct) (auto split: if_splits option.splits)

lemma take_line_append: "take_line buf = Some (l, r) \<Longrightarrow> buf = l @ r"
  by (induction buf arbitrary: l r rule: take_line.induct) (auto split: if_splits option.splits)

text \<open>
  What bounds the event loop below: a read until CRLF consumes at least two bytes, a
  read of \<open>n > 0\<close> bytes at least one, and a read of no bytes is followed by a read
  until CRLF or by none.
\<close>

definition pump_measure :: "iostream \<Rightarrow> nat" where
  "pump_measure st = 2 * length (read_buffer st)
     + (case read_callback st of Some (Read_bytes n h) \<Rightarrow> if n \<le> 0 then 1 else 0 | _ \<Rightarrow> 0)"

lemma pump_measure_bound:
  "pump_measure st \<le> 2 * length (read_buffer st) + 1"
  by (auto simp: pump_measure_def split: option.splits read_request.splits)

lemma pump_decreases:
  assumes "ready (stream s) = Some (h, d, st)"
    and "run_handler run h (s\<lparr>stream := st\<rparr>) d = Some (e, s')"
  shows "pump_measure (stream s') < pump_measure (stream s)"
proof (cases "read_callback (stream s)")
  case None
  with assms(1) show ?thesis by (simp add: ready_def)
next
  case (Some rq)
  have buf: "read_buffer (stream s') = read_buffer st"
    using run_handler_read_buffer [OF assms(2)] by simp
  show ?thesis
  proof (cases rq)
    case (Read_until h0)
    with Some assms(1) obtain l r where
      "take_line (read_buffer (stream s)) = Some (l, r)" "read_buffer st = r"
      by (auto simp: ready_def split: option.splits)
    with take_line_length [of "read_buffer (stream s)" l r]
    have "length (read_buffer st) + 2 \<le> length (read_buffer (stream s))" by simp
    with pump_measure_bound [of "stream s'"] buf Some Read_until show ?thesis
      by (simp add: pump_measure_def)
  next
    case (Read_bytes n h0)
    with Some assms(1) have r: "\<not> int (length (read_buffer (stream s))) < n" "h = h0"
      "d = take (nat n) (read_buffer (stream s))"
      "st = (stream s)\<lparr>read_buffer := drop (nat n) (read_buffer (stream s)), read_callback := None\<rparr>"
      by (auto simp: ready_def split: if_splits)
    show ?thesis
    proof (cases "n \<le> 0")
      case True
      with r have "d = []" by simp
      with assms(2) r(4) have "\<And>n' h'. read_callback (stream s') \<noteq> Some (Read_bytes n' h')"
        using run_handler_empty [of run h "s\<lparr>stream := st\<rparr>" e s'] by simp
      then have "pump_measure (stream s') = 2 * length (read_buffer (stream s'))"
        by (auto simp: pump_measure_def split: option.splits read_request.splits)
      with buf r(4) True Some Read_bytes show ?thesis
        by (simp add: pump_measure_def)
    next
      case False
      with r have "length (read_buffer st) + 1 \<le> length (read_buffer (stream s))" by auto
      with pump_measure_bound [of "stream s'"] buf Some Read_bytes False show ?thesis
        by (simp add: pump_measure_def)
    qed
  qed
qed

text \<open>
  Modelled from the spec: the event loop of section 5, which is Tornado's and not part of
  the repository. While the stream can satisfy the pending read it notifies the handler;
  an exception that leaves a handler goes to the loop and the loop goes on. The result
  is the session once no notification is possible, or \<open>None\<close> when a handler does not
  return.
\<close>

function pump :: "('cb \<Rightarrow> pyval \<Rightarrow> error option) \<Rightarrow> 'cb client \<Rightarrow> 'cb client option" where
  "pump run s =
     (case ready (stream s) of
        None \<Rightarrow> Some s
      | Some (h, dat, st) \<Rightarrow>
          (case run_handler run h (s\<lparr>stream := st\<rparr>) dat of
             None \<Rightarrow> None
           | Some (_, s') \<Rightarrow> pump run s'))"
  by pat_completeness auto

termination
  by (relation "measure (\<lambda>(run, s). pump_measure (stream s))") (auto intro: pump_decreases)

text \<open>
  Bytes arriving from the server: they join the stream's buffer and the loop runs.
  \<open>feed_all\<close> delivers a list of fragments one after the other.
\<close>

definition arrive :: "string \<Rightarrow> 'cb client \<Rightarrow> 'cb client" where
  "arrive chunk s = s\<lparr>stream := receive chunk (stream s)\<rparr>"

definition feed :: "('cb \<Rightarrow> pyval \<Rightarrow> error option) \<Rightarrow> 'cb client \<Rightarrow> string \<Rightarrow> 'cb client option" where
  "feed run s chunk = pump run (arrive chunk s)"


text \<open>The session waits for the first line of a reply and the stream's buffer is empty.\<close>

definition awaiting_first_line :: "'cb client \<Rightarrow> bool" where
  "awaiting_first_line s =
     (read_callback (stream s) = Some (Read_until On_read_first_line) \<and> read_buffer (stream s) = [])"

text \<open>
  A run of \<^verbatim>\<open>fetch\<close> calls, stopping at the first that raises; and a run of completed
  reply frames, each handed to \<^verbatim>\<open>_maybe_callback\<close> as the handlers do, the exception of
  one dispatch going to the event loop before the next.
\<close>

fun fetch_all :: "'cb client \<Rightarrow> (request \<times> 'cb) list \<Rightarrow> error + 'cb client" where
  "fetch_all s [] = Inr s"
| "fetch_all s ((request, cb) # rest) =
     (case fetch s request cb of Inl e \<Rightarrow> Inl e | Inr s' \<Rightarrow> fetch_all s' rest)"

fun dispatch_all ::
  "('cb \<Rightarrow> pyval \<Rightarrow> error option) \<Rightarrow> 'cb client \<Rightarrow> string list \<Rightarrow> 'cb client option" where
  "dispatch_all run s [] = Some s"
| "dispatch_all run s (frame # frames) =
     (case maybe_callback run s frame of
        None \<Rightarrow> None
      | Some (_, s') \<Rightarrow> dispatch_all run s' frames)"



text \<open>
  The request frame in the words of section 4.1 of the specification: a header
  \<^verbatim>\<open>*<count>\r\n\<close> followed, for each field in order, by
  \<^verbatim>\<open>$<byte-length>\r\n<field-bytes>\r\n\<close>.
\<close>

definition spec_header :: "nat \<Rightarrow> string" where
  "spec_header count = CHR ''*'' # str_nat count @ CRLF"

definition spec_bulk :: "string \<Rightarrow> string" where
  "spec_bulk bytes = CHR ''$'' # str_nat (length bytes) @ CRLF @ bytes @ CRLF"

fun spec_frame_fields :: "field list \<Rightarrow> string" where
  "spec_frame_fields [] = []"
| "spec_frame_fields (x # xs) = spec_bulk (py_str x) @ spec_frame_fields xs"

section \<open>Fragmentation does not matter\<close>

text \<open>
  No handler reads the stream's buffer, so bytes that arrive later can as well have been
  there from the start: delivering fragments one by one ends in the same session as
  delivering their concatenation at once.
\<close>

declare pump.simps [simp del]



lemma arrive_select [simp]:
  "callback_queue (arrive b s) = callback_queue s"
  "callback (arrive b s) = callback s"
  "result_queue (arrive b s) = result_queue s"
  "stream (arrive b s) = receive b (stream s)"
  "data (arrive b s) = data s"
  "multibulk_number (arrive b s) = multibulk_number s"
  "calls (arrive b s) = calls s"
  "logged (arrive b s) = logged s"
  by (simp_all add: arrive_def)

lemma arrive_update [simp]:
  "callback_queue_update f1 (arrive b s) = arrive b (callback_queue_update f1 s)"
  "result_queue_update f2 (arrive b s) = arrive b (result_queue_update f2 s)"
  "data_update f3 (arrive b s) = arrive b (data_update f3 s)"
  "multibulk_number_update f4 (arrive b s) = arrive b (multibulk_number_update f4 s)"
  "calls_update f5 (arrive b s) = arrive b (calls_update f5 s)"
  "logged_update f6 (arrive b s) = arrive b (logged_update f6 s)"
  "stream_update (\<lambda>_. receive b st) (arrive b s) = arrive b (stream_update (\<lambda>_. st) s)"
  by (simp_all add: arrive_def)

lemma receive_read [simp]:
  "read_until h (receive b st) = receive b (read_until h st)"
  "read_bytes n h (receive b st) = receive b (read_bytes n h st)"
  by (simp_all add: receive_def read_until_def read_bytes_def)

lemma wait_result_arrive [simp]: "wait_result (arrive b s) = arrive b (wait_result s)"
  by (simp add: wait_result_def)

lemma raise_logged_arrive [simp]:
  "raise_logged e (arrive b s) = (case raise_logged e s of (x, s') \<Rightarrow> (x, arrive b s'))"
  by (simp add: raise_logged_def)

lemma take_result_arrive [simp]:
  "take_result (arrive b s) d = (case take_result s d of (x, s') \<Rightarrow> (x, arrive b s'))"
  by (simp add: take_result_def)

lemma take_callback_arrive [simp]:
  "take_callback (arrive b s) = (case take_callback s of (x, s') \<Rightarrow> (x, arrive b s'))"
  by (simp add: take_callback_def)

lemma maybe_callback_arrive [simp]:
  "maybe_callback run (arrive b s) d = map_option (\<lambda>(e, s'). (e, arrive b s')) (maybe_callback run s d)"
  by (simp add: maybe_callback_def Let_def split: prod.splits option.splits sum.splits)






lemma pump_idle: "ready (stream s) = None \<Longrightarrow> pump run s = Some s"
  by (simp add: pump.simps)







lemma pump_no_read: "read_callback (stream s) = None \<Longrightarrow> pump run s = Some s"
  by (simp add: pump_idle ready_def)


section \<open>The codec on concrete frames\<close>

lemmas decode_eval =
  decode_def decode_element_def read_def py_int_def strip_def lstrip_def rstrip_def
  isspace_def digit_val_def drop_last2_def RedisError_init_def

lemma decode_simple_ok: "decode (''+OK'' @ CRLF) = Some (Inr PyTrue)"
  by (simp add: decode_eval)

lemma decode_integer_42: "decode ('':42'' @ CRLF) = Some (Inr (PyInt 42))"
  by (simp add: decode_eval)

lemma decode_null_bulk: "decode (''$-1'' @ CRLF) = Some (Inr PyNone)"
  by (simp add: decode_eval)

lemma decode_null_multibulk: "decode (''*-1'' @ CRLF) = Some (Inr PyNone)"
  by (simp add: decode_eval)

lemma decode_bulk_foo: "decode (''$3'' @ CRLF @ ''foo'' @ CRLF) = Some (Inr (PyStr ''foo''))"
  by (simp add: decode_eval)

lemma decode_error_bad_arg:
  "decode (''-ERR bad arg'' @ CRLF) = Some (Inl (RedisError ''ERR bad arg'' ''Unknown Redis Error''))"
  by (simp add: decode_eval)


lemma decode_multibulk_mixed:
  "decode (''*4'' @ CRLF @ ''$3'' @ CRLF @ ''foo'' @ CRLF @ ''$3'' @ CRLF @ ''bar'' @ CRLF
            @ ''$5'' @ CRLF @ ''hello'' @ CRLF @ '':42'' @ CRLF)
     = Some (Inr (PyList [PyStr ''foo'', PyStr ''bar'', PyStr ''hello'', PyInt 42]))"
  by (simp add: decode_eval decode_loop.simps)


lemma encode_set_foo_bar:
  "encode (Tuple [FStr ''SET'', FStr ''foo'', FStr ''bar''])
     = Inr (''*3'' @ CRLF @ ''$3'' @ CRLF @ ''SET'' @ CRLF @ ''$3'' @ CRLF @ ''foo'' @ CRLF
            @ ''$3'' @ CRLF @ ''bar'' @ CRLF)"
  by (simp add: str_nat.simps digit_char_def)

lemma concat_bulk_frames:
  "concat (map (\<lambda>x. ''$'' @ str_nat (length (py_str x)) @ CRLF @ py_str x @ CRLF) flds)
     = spec_frame_fields flds"
  by (induction flds) (simp_all add: spec_bulk_def)

section \<open>Dispatch\<close>

text \<open>
  What \<^verbatim>\<open>_maybe_callback\<close> does, by the outcome of \<^verbatim>\<open>decode\<close>, in a session whose
  \<^verbatim>\<open>_result_queue\<close> is empty (nothing in the class ever makes it non-empty).
\<close>

lemma maybe_callback_value:
  assumes "result_queue s = []" "decode dat = Some (Inr v)" "callback_queue s = cb # q"
  shows "maybe_callback run s dat =
           Some (run cb v,
             wait_result (s\<lparr>callback_queue := q, calls := calls s @ [(cb, v)],
               logged := logged s @ (case run cb v of None \<Rightarrow> [] | Some e \<Rightarrow> [e])\<rparr>))"
  using assms
  by (simp add: maybe_callback_def take_result_def take_callback_def raise_logged_def Let_def
      split: option.splits)

lemma maybe_callback_last:
  assumes "result_queue s = []" "decode dat = Some (Inr v)" "callback_queue s = []"
    "callback s = Some cb"
  shows "maybe_callback run s dat =
           Some (run cb v,
             wait_result (s\<lparr>calls := calls s @ [(cb, v)],
               logged := logged s @ (case run cb v of None \<Rightarrow> [] | Some e \<Rightarrow> [e])\<rparr>))"
  using assms
  by (simp add: maybe_callback_def take_result_def take_callback_def raise_logged_def Let_def
      split: option.splits)

lemma maybe_callback_no_callback:
  assumes "result_queue s = []" "decode dat = Some (Inr v)" "callback_queue s = []"
    "callback s = None"
  shows "maybe_callback run s dat =
           Some (Some TypeError, wait_result (s\<lparr>logged := logged s @ [TypeError]\<rparr>))"
  using assms
  by (simp add: maybe_callback_def take_result_def take_callback_def raise_logged_def)


lemma maybe_callback_returns:
  assumes "result_queue s = []" "decode dat = Some r"
  shows "\<exists>e s'. maybe_callback run s dat = Some (e, s')"
  using assms
  by (simp add: maybe_callback_def take_result_def take_callback_def raise_logged_def Let_def
      split: option.splits sum.splits prod.splits)

lemma maybe_callback_result_queue:
  "result_queue s = [] \<Longrightarrow> maybe_callback run s dat = Some (e, s') \<Longrightarrow> result_queue s' = []"
  by (auto simp: maybe_callback_def take_result_def take_callback_def raise_logged_def
      wait_result_def Let_def split: option.splits sum.splits if_splits)

lemma decode_loop_returns:
  "\<exists>r. decode_loop (int n) iodata result = Some r"
proof (induction n arbitrary: iodata result)
  case 0
  show ?case by (simp add: decode_loop.simps)
next
  case (Suc n)
  have "int (Suc n) - 1 = int n" by simp
  with Suc show ?case
    by (subst decode_loop.simps) (simp split: sum.splits prod.splits)
qed

lemma wait_result_fields [simp]:
  "callback_queue (wait_result s) = callback_queue s"
  "callback (wait_result s) = callback s"
  "result_queue (wait_result s) = result_queue s"
  "calls (wait_result s) = calls s"
  "logged (wait_result s) = logged s"
  "data (wait_result s) = data s"
  "multibulk_number (wait_result s) = multibulk_number s"
  "stream (wait_result s) = read_until On_read_first_line (stream s)"
  by (simp_all add: wait_result_def)

lemma decode_returns:
  assumes "\<And>n. py_int (fst (readline (drop 1 dat))) = Inr n \<Longrightarrow> - 1 \<le> n"
  shows "\<exists>r. decode dat = Some r"
proof (cases "take 1 dat = ''*''")
  case False
  then show ?thesis
    by (auto simp: decode_def read_def split: prod.splits sum.splits)
next
  case True
  obtain ln io1 where rl: "readline (drop 1 dat) = (ln, io1)" by (cases "readline (drop 1 dat)")
  show ?thesis
  proof (cases "py_int ln")
    case (Inl e)
    with True rl show ?thesis by (simp add: decode_def read_def)
  next
    case (Inr n)
    with assms rl have "- 1 \<le> n" by simp
    show ?thesis
    proof (cases "n = - 1")
      case True
      with \<open>take 1 dat = ''*''\<close> rl Inr show ?thesis by (simp add: decode_def read_def)
    next
      case False
      with \<open>- 1 \<le> n\<close> have "n = int (nat n)" by simp
      then obtain r where "decode_loop n io1 [] = Some r"
        using decode_loop_returns [of "nat n" io1 "[]"] by auto
      with \<open>take 1 dat = ''*''\<close> rl Inr False show ?thesis
        by (simp add: decode_def read_def split: sum.splits)
    qed
  qed
qed

text \<open>
  When \<open>decode\<close> does not return: a loop entered with a negative count on an exhausted
  stream reads the empty string for ever. The reassembly machine dispatches a first line
  \<^verbatim>\<open>*-2\r\n\<close> at once, so this frame is one on which \<^verbatim>\<open>_maybe_callback\<close> never ends.
\<close>

lemma decode_loop_exhausted:
  assumes "decode_loop number iodata result = Some r"
  shows "\<not> (number < 0 \<and> iodata = [])"
proof (rule decode_loop.raw_induct
    [where P = "\<lambda>number iodata result r. \<not> (number < 0 \<and> iodata = [])", OF _ assms])
  fix loop :: "int \<Rightarrow> string \<Rightarrow> pyval list \<Rightarrow> (error + pyval list) option"
    and number iodata result r
  assume IH: "\<And>number iodata result r. loop number iodata result = Some r
                \<Longrightarrow> \<not> (number < 0 \<and> iodata = [])"
    and step: "(if number = 0 then Some (Inr result)
                else case decode_element iodata of
                       Inl e \<Rightarrow> Some (Inl e)
                     | Inr (element, io') \<Rightarrow> loop (number - 1) io' (result @ [element])) = Some r"
  show "\<not> (number < 0 \<and> iodata = [])"
  proof
    assume a: "number < 0 \<and> iodata = []"
    then have "decode_element iodata = Inr (PyStr [], [])"
      by (simp add: decode_element_def read_def drop_last2_def)
    with a step have "loop (number - 1) [] (result @ [PyStr []]) = Some r"
      by simp
    from IH [OF this] a show False by simp
  qed
qed

lemma decode_negative_count_diverges: "decode (''*-2'' @ CRLF) = None"
proof -
  have "decode_loop (- 2) [] [] = None"
    using decode_loop_exhausted [of "- 2" "[]" "[]"] by (cases "decode_loop (- 2) [] []") auto
  then show ?thesis by (simp add: decode_eval)
qed




lemma fetch_result_queue:
  "fetch s request cb = Inr s' \<Longrightarrow> result_queue s' = result_queue s"
  by (auto simp: fetch_def split: sum.splits)


lemma init_fields [simp]:
  "callback_queue init = []" "callback init = None" "result_queue init = []"
  "calls init = []" "logged init = []"
  "stream init = \<lparr>written = [], read_buffer = [], read_callback = Some (Read_until On_read_first_line)\<rparr>"
  by (simp_all add: init_def read_until_def)



lemma dispatch_all_unsolicited:
  assumes "callback_queue s = []" "result_queue s = []"
    "list_all2 (\<lambda>f v. decode f = Some (Inr v)) frames vs"
  shows "\<exists>s'. dispatch_all run s frames = Some s'
           \<and> calls s' = calls s @ (case callback s of None \<Rightarrow> [] | Some cb \<Rightarrow> map (Pair cb) vs)
           \<and> callback_queue s' = [] \<and> callback s' = callback s \<and> result_queue s' = []"
  using assms
proof (induction frames arbitrary: s vs)
  case Nil
  then show ?case by (simp split: option.splits)
next
  case (Cons f frames)
  from Cons.prems(3) obtain v vs' where vs: "vs = v # vs'" "decode f = Some (Inr v)"
    "list_all2 (\<lambda>f v. decode f = Some (Inr v)) frames vs'"
    by (auto simp: list_all2_Cons1)
  show ?case
  proof (cases "callback s")
    case None
    let ?s1 = "wait_result (s\<lparr>logged := logged s @ [TypeError]\<rparr>)"
    have m: "maybe_callback run s f = Some (Some TypeError, ?s1)"
      by (rule maybe_callback_no_callback [OF Cons.prems(2) vs(2) Cons.prems(1) None])
    have "\<exists>s'. dispatch_all run ?s1 frames = Some s'
           \<and> calls s' = calls ?s1 @ (case callback ?s1 of None \<Rightarrow> [] | Some cb \<Rightarrow> map (Pair cb) vs')
           \<and> callback_queue s' = [] \<and> callback s' = callback ?s1 \<and> result_queue s' = []"
      by (rule Cons.IH) (simp_all add: Cons.prems vs(3))
    with m None show ?thesis by auto
  next
    case (Some cb)
    let ?s1 = "wait_result (s\<lparr>calls := calls s @ [(cb, v)],
               logged := logged s @ (case run cb v of None \<Rightarrow> [] | Some e \<Rightarrow> [e])\<rparr>)"
    have m: "maybe_callback run s f = Some (run cb v, ?s1)"
      by (rule maybe_callback_last [OF Cons.prems(2) vs(2) Cons.prems(1) Some])
    have "\<exists>s'. dispatch_all run ?s1 frames = Some s'
           \<and> calls s' = calls ?s1 @ (case callback ?s1 of None \<Rightarrow> [] | Some cb \<Rightarrow> map (Pair cb) vs')
           \<and> callback_queue s' = [] \<and> callback s' = callback ?s1 \<and> result_queue s' = []"
      by (rule Cons.IH) (simp_all add: Cons.prems vs(3))
    with m Some vs(1) show ?thesis by auto
  qed
qed

section \<open>The reassembly machine on the frames of the format table\<close>

text \<open>
  Each frame of the table, delivered whole to a session that waits for a first line with
  one callback pending: the machine reassembles exactly the frame and dispatches once.
\<close>

lemmas stream_eval =
  feed_def arrive_def receive_def pump.simps ready_def read_bytes_def read_until_def
  on_read_first_line_def on_read_bulk_line_def on_read_multibulk_linehead_def
  on_read_multibulk_linebody_def Let_def
  maybe_callback_def take_result_def take_callback_def raise_logged_def wait_result_def
  awaiting_first_line_def












section \<open>The claims of the specification\<close>



text \<open>
  Claim C2 says that a failure of \<open>decode\<close> is handed to the popped callback. The code
  does otherwise: \<^verbatim>\<open>decode(data)\<close> is evaluated before \<^verbatim>\<open>callback(result)\<close>, so when it
  raises, the callback has been popped and is never called; the exception is logged and
  raised on. Shown on two pending callbacks, with an Error reply and then a malformed
  integer reply: both callbacks are popped, neither is called.
\<close>

theorem decode_failure_skips_callback:
  "\<exists>s1 s2 s3.
     fetch_all (init :: nat client)
       [(Tuple [FStr ''get'', FStr ''k''], 1), (Tuple [FStr ''llen'', FStr ''l''], 2)] = Inr s1
     \<and> callback_queue s1 = [1, 2]
     \<and> maybe_callback (\<lambda>cb v. None) s1 (''-ERR bad arg'' @ CRLF)
           = Some (Some (RedisError ''ERR bad arg'' ''Unknown Redis Error''), s2)
     \<and> callback_queue s2 = [2] \<and> calls s2 = []
     \<and> logged s2 = [RedisError ''ERR bad arg'' ''Unknown Redis Error'']
     \<and> maybe_callback (\<lambda>cb v. None) s2 ('':abc'' @ CRLF) = Some (Some ValueError, s3)
     \<and> callback_queue s3 = [] \<and> calls s3 = []"
  by (simp add: fetch_def str_nat.simps digit_char_def stream_write_def
      maybe_callback_def take_result_def take_callback_def raise_logged_def decode_eval)



text \<open>
  Claim C4 says that, inside a multi-bulk reply, an element line that does not start
  with \<^verbatim>\<open>$\<close> counts as one element and the reply completes when the count reaches
  zero. The code does otherwise: \<^verbatim>\<open>_on_read_multibulk_linehead\<close> dispatches at once on
  such a line and leaves \<^verbatim>\<open>_multibulk_number\<close> as it is. Shown on the reply
  \<^verbatim>\<open>*2\r\n:1\r\n:2\r\n\<close>: after the line \<^verbatim>\<open>:1\r\n\<close>, with the count still 2, the
  truncated frame is decoded and handed to the first callback, and the session waits
  for a first line.
\<close>

theorem scalar_element_completes_reply_early:
  "\<exists>s1 s2 s3.
     fetch_all (init :: nat client)
       [(Tuple [FStr ''lrange'', FStr ''l'', FInt 0, FInt (- 1)], 1),
        (Tuple [FStr ''llen'', FStr ''l''], 2)] = Inr s1
     \<and> feed (\<lambda>cb v. None) s1 (''*2'' @ CRLF) = Some s2
     \<and> multibulk_number s2 = 2
     \<and> read_callback (stream s2) = Some (Read_until On_read_multibulk_linehead)
     \<and> feed (\<lambda>cb v. None) s2 ('':1'' @ CRLF) = Some s3
     \<and> multibulk_number s3 = 2
     \<and> read_callback (stream s3) = Some (Read_until On_read_first_line)
     \<and> calls s3 = [(1, PyList [PyInt 1, PyStr ''''])]
     \<and> callback_queue s3 = [2]"
  by (simp add: fetch_def str_nat.simps digit_char_def str_int_def stream_write_def
      stream_eval decode_eval decode_loop.simps)

text \<open>
  The consequence for the pairing of replies and callbacks: the rest of that reply is
  read as replies of its own. Here the second request's callback receives the second
  element of the first reply, and then the second reply as well.
\<close>

lemma scalar_element_breaks_pairing:
  "\<exists>s1 s2.
     fetch_all (init :: nat client)
       [(Tuple [FStr ''lrange'', FStr ''l'', FInt 0, FInt (- 1)], 1),
        (Tuple [FStr ''llen'', FStr ''l''], 2)] = Inr s1
     \<and> feed (\<lambda>cb v. None) s1 (''*2'' @ CRLF @ '':1'' @ CRLF @ '':2'' @ CRLF @ '':5'' @ CRLF) = Some s2
     \<and> calls s2 = [(1, PyList [PyInt 1, PyStr '''']), (2, PyInt 2), (2, PyInt 5)]
     \<and> decode (''*2'' @ CRLF @ '':1'' @ CRLF @ '':2'' @ CRLF) = Some (Inr (PyList [PyInt 1, PyInt 2]))"
  by (simp add: fetch_def str_nat.simps digit_char_def str_int_def stream_write_def
      stream_eval decode_eval decode_loop.simps)

text \<open>
  Claim C5. Whenever a completed frame is dispatched and \<open>decode\<close> returns on it, with
  a value or with an exception, \<^verbatim>\<open>_maybe_callback\<close> ends, whatever the callback does
  (it may return or raise), and it ends with a read until CRLF issued on the stream for
  \<^verbatim>\<open>_on_read_first_line\<close>; nothing else of the stream changes.
\<close>

theorem rearm_after_dispatch:
  assumes "result_queue s = []" and "decode dat = Some r"
  shows "\<exists>e s'. maybe_callback run s dat = Some (e, s')
           \<and> stream s' = (stream s)\<lparr>read_callback := Some (Read_until On_read_first_line)\<rparr>
           \<and> result_queue s' = []"
proof -
  from maybe_callback_returns [OF assms] obtain e s' where
    m: "maybe_callback run s dat = Some (e, s')" by blast
  from maybe_callback_stream [OF m] have "stream s' = read_until On_read_first_line (stream s)" .
  moreover from maybe_callback_result_queue [OF assms(1) m] have "result_queue s' = []" .
  ultimately show ?thesis using m by (simp add: read_until_def)
qed

theorem rearm_after_dispatch_witness:
  "(\<exists>e s'. maybe_callback (\<lambda>cb v. None) ((init :: nat client)\<lparr>callback_queue := [1]\<rparr>)
              ('':42'' @ CRLF) = Some (e, s')
      \<and> read_callback (stream s') = Some (Read_until On_read_first_line))
   \<and> (\<exists>e s'. maybe_callback (\<lambda>cb v. None) ((init :: nat client)\<lparr>callback_queue := [1]\<rparr>)
              (''-ERR bad arg'' @ CRLF) = Some (e, s')
      \<and> read_callback (stream s') = Some (Read_until On_read_first_line))
   \<and> (\<exists>e s'. maybe_callback (\<lambda>cb v. Some (UserError ''boom'')) ((init :: nat client)\<lparr>callback_queue := [1]\<rparr>)
              ('':42'' @ CRLF) = Some (e, s')
      \<and> read_callback (stream s') = Some (Read_until On_read_first_line))"
proof -
  have q: "result_queue ((init :: nat client)\<lparr>callback_queue := [1]\<rparr>) = []"
    by (simp add: init_def wait_result_def)
  show ?thesis
    using rearm_after_dispatch [OF q decode_integer_42, of "\<lambda>cb v. None"]
      rearm_after_dispatch [OF q decode_error_bad_arg, of "\<lambda>cb v. None"]
      rearm_after_dispatch [OF q decode_integer_42, of "\<lambda>cb v. Some (UserError ''boom'')"]
    by auto
qed

text \<open>
  Claim C6. Whole-buffer \<open>decode\<close> meets the test vectors of section 8: \<^verbatim>\<open>+OK\<close> gives
  \<^verbatim>\<open>True\<close>, \<^verbatim>\<open>:42\<close> the integer 42, \<^verbatim>\<open>$-1\<close> and \<^verbatim>\<open>*-1\<close> give \<^verbatim>\<open>None\<close>, \<^verbatim>\<open>$3 foo\<close> the
  bytes \<^verbatim>\<open>foo\<close>, \<^verbatim>\<open>-ERR bad arg\<close> raises a \<^verbatim>\<open>RedisError\<close> whose \<^verbatim>\<open>data\<close> is
  \<^verbatim>\<open>ERR bad arg\<close>, and the four-element frame gives the list of three byte strings and
  the integer 42, in order.
\<close>

theorem decode_test_vectors:
  "decode (''+OK'' @ CRLF) = Some (Inr PyTrue)
   \<and> decode ('':42'' @ CRLF) = Some (Inr (PyInt 42))
   \<and> decode (''$-1'' @ CRLF) = Some (Inr PyNone)
   \<and> decode (''*-1'' @ CRLF) = Some (Inr PyNone)
   \<and> decode (''$3'' @ CRLF @ ''foo'' @ CRLF) = Some (Inr (PyStr ''foo''))
   \<and> decode (''-ERR bad arg'' @ CRLF)
       = Some (Inl (RedisError ''ERR bad arg'' ''Unknown Redis Error''))
   \<and> decode (''*4'' @ CRLF @ ''$3'' @ CRLF @ ''foo'' @ CRLF @ ''$3'' @ CRLF @ ''bar'' @ CRLF
               @ ''$5'' @ CRLF @ ''hello'' @ CRLF @ '':42'' @ CRLF)
       = Some (Inr (PyList [PyStr ''foo'', PyStr ''bar'', PyStr ''hello'', PyInt 42]))"
  using decode_simple_ok decode_integer_42 decode_null_bulk decode_null_multibulk
    decode_bulk_foo decode_error_bad_arg decode_multibulk_mixed
  by blast

text \<open>
  Claim C7. For every command tuple, hence for every non-empty one, \<open>encode\<close> produces
  the header \<^verbatim>\<open>*<count>\r\n\<close> followed, for each field in order, by
  \<^verbatim>\<open>$<length of str(x)>\r\n<str(x)>\r\n\<close>; and \<^verbatim>\<open>("SET","foo","bar")\<close> encodes to
  \<^verbatim>\<open>*3\r\n$3\r\nSET\r\n$3\r\nfoo\r\n$3\r\nbar\r\n\<close>.
\<close>

theorem encode_wire_format:
  "encode (Tuple flds) = Inr (spec_header (length flds) @ spec_frame_fields flds)
   \<and> encode (Tuple [FStr ''SET'', FStr ''foo'', FStr ''bar''])
       = Inr (''*3'' @ CRLF @ ''$3'' @ CRLF @ ''SET'' @ CRLF @ ''$3'' @ CRLF @ ''foo'' @ CRLF
              @ ''$3'' @ CRLF @ ''bar'' @ CRLF)"
proof (rule conjI)
  have "encode (Tuple flds) = Inr (''*'' @ str_nat (length flds) @ CRLF @ spec_frame_fields flds)"
    by (simp only: encode.simps concat_bulk_frames)
  then show "encode (Tuple flds) = Inr (spec_header (length flds) @ spec_frame_fields flds)"
    by (simp add: spec_header_def)
qed (rule encode_set_foo_bar)

theorem encode_wire_format_witness:
  "encode (Tuple [FStr ''lpush'', FStr ''l'', FInt 1])
     = Inr (''*3'' @ CRLF @ ''$5'' @ CRLF @ ''lpush'' @ CRLF @ ''$1'' @ CRLF @ ''l'' @ CRLF
            @ ''$1'' @ CRLF @ ''1'' @ CRLF)"
  using encode_wire_format [of "[FStr ''lpush'', FStr ''l'', FInt 1]"]
  by (simp add: spec_header_def spec_bulk_def str_nat.simps digit_char_def str_int_def)

text \<open>
  Claim C8, as stated, fails on the empty tuple: \<open>encode\<close> does not fail there, it
  returns the frame \<^verbatim>\<open>*0\r\n\<close>.
\<close>

theorem encode_empty_tuple_counterexample:
  "encode (Tuple []) = Inr (''*0'' @ CRLF) \<and> (\<nexists>e. encode (Tuple []) = Inl e)"
  by (simp add: str_nat.simps digit_char_def)

text \<open>
  Claim C8, amended. \<open>encode\<close> fails with \<^verbatim>\<open>AssertionError\<close> whenever its input is not a
  tuple (so for every input that is not a sequence, and for lists and strings too), and
  \<open>fetch\<close> then raises the same error to its caller with nothing written and nothing
  queued. Every tuple is encoded, the empty one to \<^verbatim>\<open>*0\r\n\<close>.
\<close>

theorem encode_precondition:
  assumes "\<forall>flds. request \<noteq> Tuple flds"
  shows "encode request = Inl AssertionError
         \<and> fetch s request cb = Inl AssertionError
         \<and> (\<exists>frame. encode (Tuple flds) = Inr frame)
         \<and> encode (Tuple []) = Inr (''*0'' @ CRLF)"
  using assms by (cases request) (simp_all add: fetch_def str_nat.simps digit_char_def)

theorem encode_precondition_witness:
  "encode (PyListReq [FStr ''SET'', FStr ''foo'']) = Inl AssertionError
   \<and> fetch (init :: nat client) (PyListReq [FStr ''SET'', FStr ''foo'']) 0 = Inl AssertionError
   \<and> (\<exists>frame. encode (Tuple [FStr ''SET'']) = Inr frame)
   \<and> encode (Tuple []) = Inr (''*0'' @ CRLF)"
  using encode_precondition [of "PyListReq [FStr ''SET'', FStr ''foo'']" "init :: nat client" 0 "[FStr ''SET'']"]
  by simp

text \<open>
  Claim C9. When the first line of a reply begins with a byte other than \<^verbatim>\<open>+\<close>, \<^verbatim>\<open>-\<close>,
  \<^verbatim>\<open>:\<close>, \<^verbatim>\<open>$\<close> and \<^verbatim>\<open>*\<close>, \<^verbatim>\<open>_on_read_first_line\<close> only stores the line: it returns
  without raising, pops and invokes no callback and issues no read. So a session that
  waits for a first line and receives such a line ends with the line consumed, no read
  pending, its queue, calls and log as before; and in a session with no read pending,
  bytes that arrive later are only buffered: no handler runs again.
\<close>

theorem unknown_sigil_stops_session:
  assumes "c \<notin> set ''+-:$*''"
  shows "on_read_first_line run s (c # l) = Some (None, s\<lparr>data := c # l\<rparr>)
         \<and> (awaiting_first_line s \<longrightarrow> take_line (c # rest) = Some (line, tail) \<longrightarrow>
              feed run s (c # rest)
                = Some (s\<lparr>stream := (stream s)\<lparr>read_buffer := tail, read_callback := None\<rparr>,
                         data := line\<rparr>)
              \<and> (\<forall>s'. read_callback (stream s') = None \<longrightarrow> feed run s' bytes = Some (arrive bytes s')))"
proof -
  have h: "on_read_first_line run s (c # l) = Some (None, s\<lparr>data := c # l\<rparr>)" for s :: "'a client" and l
    using assms by (simp add: on_read_first_line_def)
  have "feed run s (c # rest)
          = Some (s\<lparr>stream := (stream s)\<lparr>read_buffer := tail, read_callback := None\<rparr>, data := line\<rparr>)"
    if "awaiting_first_line s" "take_line (c # rest) = Some (line, tail)"
  proof -
    from that(2) obtain l where line: "line = c # l"
      by (cases rest) (auto split: if_splits option.splits)
    let ?s0 = "arrive (c # rest) s"
    let ?st = "(stream s)\<lparr>read_buffer := tail, read_callback := None\<rparr>"
    have rd: "ready (stream ?s0) = Some (On_read_first_line, line, ?st)"
      using that by (simp add: awaiting_first_line_def arrive_def receive_def ready_def)
    have "pump run ?s0 = pump run (s\<lparr>stream := ?st, data := line\<rparr>)"
      using rd h [of "?s0\<lparr>stream := ?st\<rparr>" l] line
      by (subst pump.simps) (simp add: arrive_def)
    also have "\<dots> = Some (s\<lparr>stream := ?st, data := line\<rparr>)"
      by (rule pump_no_read) simp
    finally show ?thesis by (simp add: feed_def)
  qed
  moreover have "feed run s' bytes = Some (arrive bytes s')" if "read_callback (stream s') = None" for s'
    using that by (simp add: feed_def pump_no_read arrive_def receive_def)
  ultimately show ?thesis using h by blast
qed

theorem unknown_sigil_stops_session_witness:
  "CHR ''?'' \<notin> set ''+-:$*''
   \<and> awaiting_first_line ((init :: nat client)\<lparr>callback_queue := [1]\<rparr>)
   \<and> (\<exists>s'. feed (\<lambda>cb v. None) ((init :: nat client)\<lparr>callback_queue := [1]\<rparr>) (''?x'' @ CRLF @ '':42'' @ CRLF) = Some s'
         \<and> calls s' = [] \<and> callback_queue s' = [1] \<and> read_callback (stream s') = None
         \<and> read_buffer (stream s') = '':42'' @ CRLF)"
proof -
  let ?s = "(init :: nat client)\<lparr>callback_queue := [1]\<rparr>"
  have c: "CHR ''?'' \<notin> set ''+-:$*''" by simp
  have a: "awaiting_first_line ?s" by (simp add: awaiting_first_line_def)
  have t: "take_line (CHR ''?'' # ''x'' @ CRLF @ '':42'' @ CRLF) = Some (''?x'' @ CRLF, '':42'' @ CRLF)"
    by simp
  from unknown_sigil_stops_session [OF c, of "\<lambda>cb v. None" ?s "[]" "''x'' @ CRLF @ '':42'' @ CRLF"
      "''?x'' @ CRLF" "'':42'' @ CRLF" "[]"] a t
  have "feed (\<lambda>cb v. None) ?s (''?x'' @ CRLF @ '':42'' @ CRLF)
          = Some (?s\<lparr>stream := (stream ?s)\<lparr>read_buffer := '':42'' @ CRLF, read_callback := None\<rparr>,
                      data := ''?x'' @ CRLF\<rparr>)"
    by simp
  with c a show ?thesis by simp
qed

text \<open>
  Claim C10. With the callback queue empty, every reply that decodes to a value is
  dispatched to the callback in \<^verbatim>\<open>_callback\<close>, the one the last \<open>fetch\<close> stored there; the
  queue stays empty and \<^verbatim>\<open>_callback\<close> stays, so the same callback is invoked for each
  further reply. When \<^verbatim>\<open>_callback\<close> is still \<^verbatim>\<open>None\<close>, as \<^verbatim>\<open>__init__\<close> leaves it, no
  callback is invoked: the call of \<^verbatim>\<open>None\<close> raises \<^verbatim>\<open>TypeError\<close>.
\<close>

theorem unsolicited_reply_callback:
  assumes "callback_queue s = []" and "result_queue s = []"
    and "list_all2 (\<lambda>f v. decode f = Some (Inr v)) frames vs"
  shows "(callback s = Some cb \<longrightarrow>
            (\<exists>s'. dispatch_all run s frames = Some s' \<and> calls s' = calls s @ map (Pair cb) vs
               \<and> callback_queue s' = [] \<and> callback s' = Some cb))
         \<and> (callback s = None \<longrightarrow>
            (\<exists>s'. dispatch_all run s frames = Some s' \<and> calls s' = calls s)
            \<and> (\<forall>f v. decode f = Some (Inr v) \<longrightarrow>
                  (\<exists>s'. maybe_callback run s f = Some (Some TypeError, s') \<and> calls s' = calls s)))
         \<and> (\<exists>s1. fetch s (Tuple flds) cb = Inr s1 \<and> callback s1 = Some cb)
         \<and> callback (init :: 'cb client) = None"
proof -
  from dispatch_all_unsolicited [OF assms, of run] obtain s' where
    d: "dispatch_all run s frames = Some s'"
      "calls s' = calls s @ (case callback s of None \<Rightarrow> [] | Some cb \<Rightarrow> map (Pair cb) vs)"
      "callback_queue s' = []" "callback s' = callback s"
    by blast
  have "\<exists>s'. maybe_callback run s f = Some (Some TypeError, s') \<and> calls s' = calls s"
    if "callback s = None" "decode f = Some (Inr v)" for f v
    using maybe_callback_no_callback [OF assms(2) that(2) assms(1) that(1), of run] by simp
  moreover have "\<exists>s1. fetch s (Tuple flds) cb = Inr s1 \<and> callback s1 = Some cb"
    by (simp add: fetch_def)
  ultimately show ?thesis using d by auto
qed

theorem unsolicited_reply_callback_witness:
  "(\<exists>s1 s2 s3. fetch (init :: nat client) (Tuple [FStr ''psubscribe'', FStr ''*'']) 5 = Inr s1
      \<and> maybe_callback (\<lambda>cb v. None) s1 ('':1'' @ CRLF) = Some (None, s2)
      \<and> callback_queue s2 = [] \<and> callback s2 = Some 5
      \<and> dispatch_all (\<lambda>cb v. None) s2 ['':42'' @ CRLF, ''$3'' @ CRLF @ ''foo'' @ CRLF] = Some s3
      \<and> calls s3 = calls s2 @ [(5, PyInt 42), (5, PyStr ''foo'')])"
proof -
  have d1: "decode ('':1'' @ CRLF) = Some (Inr (PyInt 1))" by (simp add: decode_eval)
  obtain s1 where s1: "fetch (init :: nat client) (Tuple [FStr ''psubscribe'', FStr ''*'']) 5 = Inr s1"
    "callback_queue s1 = [5]" "callback s1 = Some 5" "result_queue s1 = []"
    by (simp add: fetch_def)
  let ?s2 = "wait_result (s1\<lparr>callback_queue := [], calls := calls s1 @ [(5, PyInt 1)], logged := logged s1 @ []\<rparr>)"
  have m: "maybe_callback (\<lambda>cb v. None) s1 ('':1'' @ CRLF) = Some (None, ?s2)"
    using maybe_callback_value [OF s1(4) d1 s1(2), of "\<lambda>cb v. None"] by simp
  have d: "list_all2 (\<lambda>f v. decode f = Some (Inr v))
        ['':42'' @ CRLF, ''$3'' @ CRLF @ ''foo'' @ CRLF] [PyInt 42, PyStr ''foo'']"
    using decode_integer_42 decode_bulk_foo by simp
  from unsolicited_reply_callback [of ?s2 "['':42'' @ CRLF, ''$3'' @ CRLF @ ''foo'' @ CRLF]"
      "[PyInt 42, PyStr ''foo'']" 5 "\<lambda>cb v. None", OF _ _ d] s1
  obtain s3 where "dispatch_all (\<lambda>cb v. None) ?s2 ['':42'' @ CRLF, ''$3'' @ CRLF @ ''foo'' @ CRLF] = Some s3"
    "calls s3 = calls ?s2 @ [(5, PyInt 42), (5, PyStr ''foo'')]"
    by auto
  with s1(1) m s1 show ?thesis by auto
qed

end
